theory Spec2Isabelle
  imports Complex_Main "HOL-Library.Sublist"
begin

section \<open>Exceptions\<close>

text \<open>
  The exceptions the handlers tell apart: \<open>TelegramAPIError\<close> is the class the delivery
  code catches by name, every other subclass of \<open>Exception\<close> is \<open>OtherError\<close>.
\<close>

datatype pyexc = TelegramAPIError string | OtherError string

section \<open>Format resolver (bot/services/youtube.py)\<close>

subsection \<open>The table of standard resolutions\<close>

text \<open>
  \<open>YouTubeService.RESOLUTIONS\<close> is a dict literal; a Python dict iterates in insertion
  order, so the table is an association list in the order of the source.
\<close>

definition RESOLUTIONS :: "(string \<times> int) list" where
  "RESOLUTIONS =
     [(''144p'', 144), (''240p'', 240), (''360p'', 360), (''480p'', 480),
      (''720p'', 720), (''1080p'', 1080), (''1440p'', 1440), (''2160p'', 2160)]"

subsection \<open>Extractor metadata\<close>

text \<open>
  One entry of \<open>info['formats']\<close>: only the two keys the resolver reads. A key that is
  absent or holds \<open>None\<close> is \<open>None\<close>, as \<open>dict.get\<close> returns it.
\<close>

record format =
  fmt_vcodec :: "string option"
  fmt_height :: "int option"

text \<open>
  The metadata dict, with the two keys that are read from it; \<open>None\<close> is an absent key, for
  which \<open>info.get\<close> gives the default written at the call.
\<close>

record video_info =
  info_title :: "string option"
  info_formats :: "format list option"

text \<open>
  Lines 129-134: the heights of the entries whose \<open>vcodec\<close> is not the string \<open>none\<close> and
  whose height is truthy (present and not zero), gathered in a set.
\<close>

definition video_height :: "format \<Rightarrow> int option" where
  "video_height f =
     (if fmt_vcodec f \<noteq> Some ''none''
      then (case fmt_height f of
              None \<Rightarrow> None
            | Some h \<Rightarrow> if h \<noteq> 0 then Some h else None)
      else None)"

definition collect_heights :: "format list \<Rightarrow> int set" where
  "collect_heights fs = set (List.map_filter video_height fs)"

subsection \<open>Matching heights against the table\<close>

text \<open>
  Line 145, \<open>height_diff <= max(height * 0.1, 50)\<close>. The left side is an integer and the
  right side a double. For the eight heights of the table the product \<open>height * 0.1\<close> is
  below 50 for 144, 240, 360 and 480, and is the exact double 72.0, 108.0, 144.0 and 216.0
  for the others, so the comparison is the exact one of \<open>10 * height_diff\<close> with
  \<open>max height 500\<close>.
\<close>

definition close_to :: "int \<Rightarrow> int \<Rightarrow> bool" where
  "close_to available_height h \<longleftrightarrow> 10 * \<bar>available_height - h\<bar> \<le> max h 500"

text \<open>
  Lines 139-147: the table sorted by height (\<open>sorted\<close> is stable, as \<open>sort_key\<close> is); a name
  is appended when the inner loop over the sorted heights finds a close one.
\<close>

definition matched_formats :: "int set \<Rightarrow> string list" where
  "matched_formats available_heights =
     map fst
       (filter (\<lambda>(format_name, h).
                  list_ex (\<lambda>available_height. close_to available_height h)
                    (sorted_list_of_set available_heights))
          (sort_key snd RESOLUTIONS))"

text \<open>Lines 151-155: the branch taken when nothing matched.\<close>

definition fallback_formats :: "int set \<Rightarrow> string list" where
  "fallback_formats available_heights =
     (let max_height = (if available_heights \<noteq> {} then Max available_heights else 720)
      in map fst (filter (\<lambda>(format_name, h). h \<le> max_height) RESOLUTIONS))"

text \<open>
  Line 158, \<open>available_formats.sort(key=lambda x: self.RESOLUTIONS[x])\<close>: the subscript
  raises \<open>KeyError\<close> on a name that is not in the table.
\<close>

definition sort_by_resolution :: "string list \<Rightarrow> pyexc + string list" where
  "sort_by_resolution names =
     (if list_all (\<lambda>x. map_of RESOLUTIONS x \<noteq> None) names
      then Inr (sort_key (\<lambda>x. the (map_of RESOLUTIONS x)) names)
      else Inl (OtherError ''KeyError''))"

definition available_qualities :: "int set \<Rightarrow> pyexc + string list" where
  "available_qualities available_heights =
     (let available_formats = matched_formats available_heights;
          available_formats =
            (if available_formats = [] then fallback_formats available_heights
             else available_formats)
      in sort_by_resolution available_formats)"

text \<open>
  \<open>get_available_formats\<close>, lines 123-165. The argument is the outcome of
  \<open>get_video_info\<close>: the extractor's metadata, or the exception it re-raises. Whatever is
  raised inside the \<open>try\<close> is caught by \<open>except Exception\<close> and answered with the standard
  list of line 165.
\<close>

definition default_formats :: "string list" where
  "default_formats = [''144p'', ''240p'', ''360p'', ''480p'', ''720p'', ''1080p'']"

definition get_available_formats_body :: "pyexc + video_info \<Rightarrow> pyexc + string list" where
  "get_available_formats_body probe =
     (case probe of
        Inl e \<Rightarrow> Inl e
      | Inr info \<Rightarrow>
          (let fs = (case info_formats info of None \<Rightarrow> [] | Some l \<Rightarrow> l)
           in available_qualities (collect_heights fs)))"

definition get_available_formats :: "pyexc + video_info \<Rightarrow> pyexc + string list" where
  "get_available_formats probe =
     (case get_available_formats_body probe of
        Inl e \<Rightarrow> Inr default_formats
      | Inr available_formats \<Rightarrow> Inr available_formats)"

section \<open>Download options (bot/services/youtube.py, download\_video)\<close>

text \<open>
  An f-string renders an \<open>int\<close> in decimal, with a minus sign when it is negative.
\<close>

fun digits :: "nat \<Rightarrow> string" where
  "digits n =
     (if n < 10 then [char_of (48 + n)]
      else digits (n div 10) @ [char_of (48 + n mod 10)])"

declare digits.simps [simp del]

definition str_int :: "int \<Rightarrow> string" where
  "str_int i = (if i < 0 then CHR ''-'' # digits (nat (- i)) else digits (nat i))"

text \<open>Line 270, \<open>height = self.RESOLUTIONS.get(quality, 720)\<close>.\<close>

definition quality_height :: "string \<Rightarrow> int" where
  "quality_height quality =
     (case map_of RESOLUTIONS quality of Some h \<Rightarrow> h | None \<Rightarrow> 720)"

text \<open>
  Line 274,
  \<open>format_code = f"bestvideo[height<={height}]+bestaudio/best[height<={height}]"\<close>.
\<close>

definition format_code :: "int \<Rightarrow> string" where
  "format_code h =
     ''bestvideo[height<='' @ str_int h @ '']+bestaudio/best[height<='' @ str_int h @ '']''"

text \<open>
  \<open>os.path.join\<close> of two components on a POSIX system: an absolute second component
  replaces the first; otherwise a slash is inserted unless the first is empty or already
  ends with one.
\<close>

definition path_join :: "string \<Rightarrow> string \<Rightarrow> string" where
  "path_join a b =
     (if b \<noteq> [] \<and> hd b = CHR ''/'' then b
      else if a = [] \<or> last a = CHR ''/'' then a @ b
      else a @ ''/'' @ b)"

text \<open>
  The options dict handed to the extraction tool, lines 279-294, as the association list of
  the dict literal. \<open>file_id\<close> is the fresh \<open>uuid4\<close> string of line 266.
\<close>

datatype opt_value =
    OptStr string
  | OptBool bool
  | OptInt int
  | OptDicts "(string \<times> string) list list"

definition video_ydl_opts :: "string \<Rightarrow> string \<Rightarrow> string \<Rightarrow> (string \<times> opt_value) list" where
  "video_ydl_opts download_dir file_id quality =
     (let output_path = path_join download_dir (file_id @ ''.%(ext)s'');
          height = quality_height quality;
          format_code = format_code height
      in [(''format'', OptStr format_code),
          (''outtmpl'', OptStr output_path),
          (''quiet'', OptBool True),
          (''no_warnings'', OptBool True),
          (''merge_output_format'', OptStr ''mp4''),
          (''postprocessors'',
             OptDicts [[(''key'', ''FFmpegVideoConvertor''), (''preferedformat'', ''mp4'')]]),
          (''retries'', OptInt 10),
          (''fragment_retries'', OptInt 10),
          (''skip_unavailable_fragments'', OptBool True),
          (''keepvideo'', OptBool False)])"

text \<open>The options of \<open>download_audio\<close>, lines 201-211.\<close>

definition audio_ydl_opts :: "string \<Rightarrow> string \<Rightarrow> (string \<times> opt_value) list" where
  "audio_ydl_opts download_dir file_id =
     (let output_path = path_join download_dir (file_id @ ''.%(ext)s'')
      in [(''format'', OptStr ''bestaudio/best''),
          (''outtmpl'', OptStr output_path),
          (''quiet'', OptBool True),
          (''no_warnings'', OptBool True),
          (''postprocessors'',
             OptDicts [[(''key'', ''FFmpegExtractAudio''), (''preferredcodec'', ''mp3''),
                     (''preferredquality'', ''192'')]])])"

subsection \<open>What a selection string selects\<close>

text \<open>
  Modelled from the spec: the extraction tool that evaluates the \<open>format\<close> string is an
  external library and no part of the repository. The spec names three kinds of stream to
  pick: a video-only stream, the best audio stream, a single combined stream.
\<close>

datatype stream_kind = bestvideo | bestaudio | best

text \<open>
  Modelled from the spec: selection criteria are a pick of a kind with an optional height
  cap, two selections combined, and a selection with a fallback.
\<close>

datatype selector =
    Pick stream_kind "int option"
  | Merge selector selector
  | Fallback selector selector

text \<open>The names by which a format string calls the three kinds.\<close>

fun kind_name :: "stream_kind \<Rightarrow> string" where
  "kind_name bestvideo = ''bestvideo''"
| "kind_name bestaudio = ''bestaudio''"
| "kind_name best = ''best''"

text \<open>
  How a format string writes a selection, as line 274 does: the cap as \<open>[height<=N]\<close> after
  the name, \<open>+\<close> between the parts of a combination, \<open>/\<close> before a fallback.
\<close>

fun render :: "selector \<Rightarrow> string" where
  "render (Pick k None) = kind_name k"
| "render (Pick k (Some h)) = kind_name k @ ''[height<='' @ str_int h @ '']''"
| "render (Merge a b) = render a @ ''+'' @ render b"
| "render (Fallback a b) = render a @ ''/'' @ render b"

text \<open>
  Modelled from the spec: an available stream, as far as selection looks at it: whether it
  carries video, whether it carries audio, and its height when it has one.
\<close>

record stream =
  has_video :: bool
  has_audio :: bool
  stream_height :: "int option"

text \<open>
  Modelled from the spec: which streams a kind admits. A video-only stream carries no
  audio, an audio stream no video, a combined stream both.
\<close>

fun of_kind :: "stream_kind \<Rightarrow> stream \<Rightarrow> bool" where
  "of_kind bestvideo s = (has_video s \<and> \<not> has_audio s)"
| "of_kind bestaudio s = (has_audio s \<and> \<not> has_video s)"
| "of_kind best s = (has_video s \<and> has_audio s)"

text \<open>
  Modelled from the spec: "capped at the target height". A stream of unknown height does
  not pass a cap.
\<close>

fun under_cap :: "int option \<Rightarrow> stream \<Rightarrow> bool" where
  "under_cap None s = True"
| "under_cap (Some cap) s = (case stream_height s of None \<Rightarrow> False | Some h \<Rightarrow> h \<le> cap)"

text \<open>
  Modelled from the spec: a pick takes the best of the streams of its kind under its cap
  (the streams are listed from worst to best), a merge needs both of its parts, and an
  alternative is tried only when the one before it selects nothing ("falling back to a
  single combined stream ... if separate-stream selection is unavailable").
\<close>

fun select :: "selector \<Rightarrow> stream list \<Rightarrow> stream list option" where
  "select (Pick k cap) ss =
     (case filter (\<lambda>s. of_kind k s \<and> under_cap cap s) ss of
        [] \<Rightarrow> None
      | c # cs \<Rightarrow> Some [last (c # cs)])"
| "select (Merge a b) ss =
     (case select a ss of
        None \<Rightarrow> None
      | Some x \<Rightarrow> (case select b ss of None \<Rightarrow> None | Some y \<Rightarrow> Some (x @ y)))"
| "select (Fallback a b) ss =
     (case select a ss of Some x \<Rightarrow> Some x | None \<Rightarrow> select b ss)"

text \<open>
  The selection that line 274 writes for a height: \<open>render\<close> of it is \<open>format_code\<close> of the
  height.
\<close>

definition video_selector :: "int \<Rightarrow> selector" where
  "video_selector h =
     Fallback (Merge (Pick bestvideo (Some h)) (Pick bestaudio None)) (Pick best (Some h))"

section \<open>Link validator (bot/services/youtube.py, is\_valid\_youtube\_url)\<close>

text \<open>
  A Python \<open>str\<close> is modelled as a \<open>string\<close>; a \<open>char\<close> stands for a code point below 256.
  \<open>str.strip\<close> and the regular-expression class \<open>\s\<close> use the same notion of white space;
  below 256 it holds these twelve code points.
\<close>

definition isspace :: "char \<Rightarrow> bool" where
  "isspace c \<longleftrightarrow> of_char c \<in> set [9, 10, 11, 12, 13, 28, 29, 30, 31, 32, 133, 160 :: nat]"

text \<open>\<open>url.strip()\<close>: white space removed from both ends.\<close>

definition strip :: "string \<Rightarrow> string" where
  "strip s = rev (dropWhile isspace (rev (dropWhile isspace s)))"

text \<open>
  Lines 60-62: \<open>strip\<close>, then \<open>re.sub(r'^[@\s]+', '', cleaned_url)\<close>, which deletes the longest
  run of at-signs and white space at the start of the string (the anchor lets the pattern
  match nowhere else).
\<close>

definition clean_url :: "string \<Rightarrow> string" where
  "clean_url url = dropWhile (\<lambda>c. c = CHR ''@'' \<or> isspace c) (strip url)"

subsection \<open>Regular expressions\<close>

text \<open>
  The constructs that \<open>YOUTUBE_URL_PATTERN\<close> uses: literal text, one character of a class,
  one or more characters of a class (\<open>\S+\<close>), sequence, alternative, and option.
  \<open>rmatch r s\<close> lists, in the order a backtracking matcher tries them, the rests of \<open>s\<close>
  after each way of matching \<open>r\<close> at the start of \<open>s\<close>; \<open>re.search\<close> succeeds when the
  pattern matches at the start of some suffix of the subject.
\<close>

datatype regex =
    Lit string
  | Class "char \<Rightarrow> bool"
  | PlusClass "char \<Rightarrow> bool"
  | Seq regex regex
  | Alt regex regex
  | Opt regex

fun plus_class :: "(char \<Rightarrow> bool) \<Rightarrow> string \<Rightarrow> string list" where
  "plus_class p [] = []"
| "plus_class p (c # cs) = (if p c then plus_class p cs @ [cs] else [])"

fun rmatch :: "regex \<Rightarrow> string \<Rightarrow> string list" where
  "rmatch (Lit l) s = (if prefix l s then [drop (length l) s] else [])"
| "rmatch (Class p) [] = []"
| "rmatch (Class p) (c # cs) = (if p c then [cs] else [])"
| "rmatch (PlusClass p) s = plus_class p s"
| "rmatch (Seq a b) s = concat (map (rmatch b) (rmatch a s))"
| "rmatch (Alt a b) s = rmatch a s @ rmatch b s"
| "rmatch (Opt a) s = rmatch a s @ [s]"

text \<open>A counted repetition \<open>r{n}\<close> is \<open>n\<close> copies of \<open>r\<close> in sequence.\<close>

fun rep :: "nat \<Rightarrow> regex \<Rightarrow> regex" where
  "rep 0 r = Lit []"
| "rep (Suc n) r = Seq r (rep n r)"

definition re_search :: "regex \<Rightarrow> string \<Rightarrow> bool" where
  "re_search r s = list_ex (\<lambda>t. rmatch r t \<noteq> []) (suffixes s)"

text \<open>The class \<open>[a-zA-Z0-9_-]\<close>.\<close>

definition id_char :: "char \<Rightarrow> bool" where
  "id_char c \<longleftrightarrow>
     c \<in> set ''abcdefghijklmnopqrstuvwxyzABCDEFGHIJKLMNOPQRSTUVWXYZ0123456789_-''"

text \<open>
  Line 22:
  \<^verbatim>\<open>(?:https?:\/\/)?(?:www\.)?(?:(?:youtube\.com\/(?:watch\?v=|embed\/|v\/)|youtu\.be\/))([a-zA-Z0-9_-]{11})(?:\S+)?\<close>
\<close>

definition YOUTUBE_URL_PATTERN :: regex where
  "YOUTUBE_URL_PATTERN =
     Seq (Opt (Seq (Lit ''http'') (Seq (Opt (Lit ''s'')) (Lit ''://''))))
    (Seq (Opt (Lit ''www.''))
    (Seq (Alt (Seq (Lit ''youtube.com/'')
                   (Alt (Lit ''watch?v='') (Alt (Lit ''embed/'') (Lit ''v/''))))
              (Lit ''youtu.be/''))
    (Seq (rep 11 (Class id_char))
         (Opt (PlusClass (\<lambda>c. \<not> isspace c))))))"

text \<open>
  \<open>is_valid_youtube_url\<close>, lines 56-73. None of its steps raises on a \<open>str\<close>, so the model
  has no error branch.
\<close>

definition is_valid_youtube_url :: "string \<Rightarrow> bool" where
  "is_valid_youtube_url url =
     (if url = [] then False
      else let cleaned_url = clean_url url
           in if sublist ''youtube.com'' cleaned_url \<or> sublist ''youtu.be'' cleaned_url
              then True
              else re_search YOUTUBE_URL_PATTERN cleaned_url)"

section \<open>File lifecycle (bot/services/youtube.py, cleanup\_file)\<close>

text \<open>What the service writes to its logger.\<close>

datatype log_entry = LogInfo string | LogError string

text \<open>\<open>str(e)\<close>: the text that an exception carries here is the one \<open>str\<close> gives.\<close>

definition exc_str :: "pyexc \<Rightarrow> string" where
  "exc_str e = (case e of TelegramAPIError m \<Rightarrow> m | OtherError m \<Rightarrow> m)"

text \<open>
  The download directory is the set of the paths that exist. \<open>os.remove\<close> raises when the
  path does not exist and may fail for a reason of its own (permissions, a directory, a
  busy file), given as \<open>failure\<close>; a failed removal leaves the directory as it was.
\<close>

definition os_remove :: "pyexc option \<Rightarrow> string set \<Rightarrow> string \<Rightarrow> pyexc + string set" where
  "os_remove failure files path =
     (if path \<notin> files then Inl (OtherError ''FileNotFoundError'')
      else case failure of Some e \<Rightarrow> Inl e | None \<Rightarrow> Inr (files - {path}))"

text \<open>The \<open>try\<close> block of \<open>cleanup_file\<close>, lines 376-378.\<close>

definition cleanup_file_body ::
  "pyexc option \<Rightarrow> string set \<Rightarrow> string \<Rightarrow> pyexc + string set \<times> log_entry list" where
  "cleanup_file_body failure files file_path =
     (if file_path \<in> files
      then (case os_remove failure files file_path of
              Inl e \<Rightarrow> Inl e
            | Inr files' \<Rightarrow> Inr (files', [LogInfo (''Deleted file: '' @ file_path)]))
      else Inr (files, []))"

text \<open>
  \<open>cleanup_file\<close>, lines 375-380: \<open>except Exception\<close> logs whatever the block raised and
  returns normally.
\<close>

definition cleanup_file ::
  "pyexc option \<Rightarrow> string set \<Rightarrow> string \<Rightarrow> pyexc + string set \<times> log_entry list" where
  "cleanup_file failure files file_path =
     (case cleanup_file_body failure files file_path of
        Inl e \<Rightarrow>
          Inr (files, [LogError (''Error deleting file '' @ file_path @ '': '' @ exc_str e)])
      | Inr r \<Rightarrow> Inr r)"

section \<open>Request-rate gate (bot/middlewares/throttling.py)\<close>

text \<open>
  An incoming event, as far as \<open>_get_user\<close> looks at it: a message or a callback query with
  the id of its \<open>from_user\<close> (which may be missing), or any other update.
\<close>

datatype event = Message "int option" | CallbackQuery "int option" | OtherEvent

fun get_user :: "event \<Rightarrow> int option" where
  "get_user (Message from_user) = from_user"
| "get_user (CallbackQuery from_user) = from_user"
| "get_user OtherEvent = None"

text \<open>
  The middleware object: the default interval and the table of the last accepted request
  per user id. Times and intervals are Python floats, read here as real numbers.
\<close>

record throttling =
  default_rate :: real
  user_last_request :: "int \<rightharpoonup> real"

text \<open>
  What \<open>__call__\<close> does with the handler: \<open>Ignored\<close> is \<open>return None\<close> on line 64, where the
  handler is not called; \<open>Called r\<close> is \<open>return await handler(event, data)\<close> with the
  handler's result \<open>r\<close>.
\<close>

datatype 'r handled = Ignored | Called 'r

text \<open>
  Line 50, \<open>get_flag(data, "throttling_rate") or self.default_rate\<close>: a flag that is absent
  or falsy (zero) gives the default.
\<close>

definition throttling_rate :: "throttling \<Rightarrow> real option \<Rightarrow> real" where
  "throttling_rate mw flag =
     (case flag of
        None \<Rightarrow> default_rate mw
      | Some f \<Rightarrow> if f \<noteq> 0 then f else default_rate mw)"

text \<open>
  \<open>ThrottlingMiddleware.__call__\<close>, lines 44-70. \<open>flag\<close> is the handler's flag and \<open>now\<close> the
  value that \<open>time.time()\<close> returns on line 59.
\<close>

definition throttling_call ::
  "throttling \<Rightarrow> (event \<Rightarrow> 'r) \<Rightarrow> event \<Rightarrow> real option \<Rightarrow> real \<Rightarrow> throttling \<times> 'r handled" where
  "throttling_call mw handler ev flag now =
     (case get_user ev of
        None \<Rightarrow> (mw, Called (handler ev))
      | Some user_id \<Rightarrow>
          (let rate = throttling_rate mw flag
           in if rate \<le> 0 then (mw, Called (handler ev))
              else let last_request_time =
                         (case user_last_request mw user_id of None \<Rightarrow> 0 | Some t \<Rightarrow> t);
                       current_time = now
                   in if current_time - last_request_time < rate then (mw, Ignored)
                      else (mw\<lparr>user_last_request :=
                                  (user_last_request mw)(user_id \<mapsto> current_time)\<rparr>,
                            Called (handler ev))))"

section \<open>Media fetcher (bot/services/youtube.py, download\_audio and download\_video)\<close>








section \<open>Delivery (bot/handlers/callbacks.py)\<close>

text \<open>
  What a handler does to the outside: it edits the status message to a localized text
  (\<open>EditText\<close> with the message key, \<open>EditError\<close> with the detail put into the \<open>error\<close>
  message), sends the file, calls \<open>cleanup_file\<close>, and acknowledges the callback.
\<close>

datatype action =
    EditText string
  | EditError string
  | AnswerAudio string string
  | AnswerVideo string string
  | CleanupFile string
  | CallbackAnswer

text \<open>
  The state a handler runs in: the calls made so far, in order, and the paths that exist
  in the download directory.
\<close>

record world =
  calls :: "action list"
  paths :: "string set"

text \<open>
  A piece of handler code takes the state and ends normally or with an exception.
\<close>

type_synonym step = "world \<Rightarrow> (pyexc + unit) \<times> world"

text \<open>
  An awaited call of the chat transport. \<open>api\<close> tells which calls the transport rejects, and
  with which exception; the call is recorded whether or not it is rejected.
\<close>

definition telegram :: "(action \<Rightarrow> pyexc option) \<Rightarrow> action \<Rightarrow> step" where
  "telegram api a w =
     ((case api a of None \<Rightarrow> Inr () | Some e \<Rightarrow> Inl e), w\<lparr>calls := calls w @ [a]\<rparr>)"

text \<open>\<open>await youtube_service.cleanup_file(file_path)\<close>, acting on the directory.\<close>

definition cleanup :: "pyexc option \<Rightarrow> string \<Rightarrow> step" where
  "cleanup failure file_path w =
     (case cleanup_file failure (paths w) file_path of
        Inl e \<Rightarrow> (Inl e, w\<lparr>calls := calls w @ [CleanupFile file_path]\<rparr>)
      | Inr (paths', logged) \<Rightarrow>
          (Inr (), \<lparr>calls = calls w @ [CleanupFile file_path], paths = paths'\<rparr>))"

text \<open>
  Statement sequencing, and the three shapes of \<open>try\<close> statement of the handlers:
  \<open>except TelegramAPIError as e\<close>, \<open>except Exception as e\<close>, and \<open>finally\<close> (the final block
  always runs; when it ends normally the outcome of the body stands).
\<close>

definition then_do :: "step \<Rightarrow> step \<Rightarrow> step" where
  "then_do first second w =
     (case first w of
        (Inl e, w') \<Rightarrow> (Inl e, w')
      | (Inr u, w') \<Rightarrow> second w')"

definition try_except_telegram :: "step \<Rightarrow> (pyexc \<Rightarrow> step) \<Rightarrow> step" where
  "try_except_telegram body handler w =
     (case body w of
        (Inl (TelegramAPIError m), w') \<Rightarrow> handler (TelegramAPIError m) w'
      | (Inl (OtherError m), w') \<Rightarrow> (Inl (OtherError m), w')
      | (Inr u, w') \<Rightarrow> (Inr u, w'))"

definition try_except_exception :: "step \<Rightarrow> (pyexc \<Rightarrow> step) \<Rightarrow> step" where
  "try_except_exception body handler w =
     (case body w of
        (Inl e, w') \<Rightarrow> handler e w'
      | (Inr u, w') \<Rightarrow> (Inr u, w'))"

definition try_finally :: "step \<Rightarrow> step \<Rightarrow> step" where
  "try_finally body final w =
     (case body w of
        (r, w') \<Rightarrow>
          (case final w' of
             (Inl e, w'') \<Rightarrow> (Inl e, w'')
           | (Inr u, w'') \<Rightarrow> (r, w'')))"

text \<open>\<open>callback_format\<close>, lines 121-140: the \<open>try\<close> statement that sends the audio file.\<close>

definition send_audio :: "(action \<Rightarrow> pyexc option) \<Rightarrow> pyexc option \<Rightarrow> string \<Rightarrow> string \<Rightarrow> step" where
  "send_audio api failure file_path file_name =
     try_finally
       (try_except_telegram
          (then_do (telegram api (AnswerAudio file_path file_name))
                   (telegram api (EditText ''download_complete'')))
          (\<lambda>e. telegram api (EditError (exc_str e))))
       (cleanup failure file_path)"

text \<open>
  \<open>callback_format\<close> from line 112 to its end, in the audio branch. \<open>downloaded\<close> is what
  \<open>download_audio\<close> returned; \<open>failure\<close> is the way \<open>os.remove\<close> would fail, if it would.
\<close>

definition callback_format_audio ::
  "(action \<Rightarrow> pyexc option) \<Rightarrow> pyexc option \<Rightarrow> (string \<times> string) option \<Rightarrow> step" where
  "callback_format_audio api failure downloaded =
     then_do
       (case downloaded of
          Some (file_path, file_name) \<Rightarrow>
            if file_path \<noteq> [] \<and> file_name \<noteq> []
            then then_do (telegram api (EditText ''uploading''))
                         (send_audio api failure file_path file_name)
            else telegram api (EditError ''Failed to download audio'')
        | None \<Rightarrow> telegram api (EditError ''Failed to download audio''))
       (telegram api CallbackAnswer)"

text \<open>\<open>callback_quality\<close>, lines 195-214: the \<open>try\<close> statement that sends the video file.\<close>

definition send_video :: "(action \<Rightarrow> pyexc option) \<Rightarrow> pyexc option \<Rightarrow> string \<Rightarrow> string \<Rightarrow> step" where
  "send_video api failure file_path file_name =
     try_finally
       (try_except_telegram
          (then_do (telegram api (AnswerVideo file_path file_name))
                   (telegram api (EditText ''download_complete'')))
          (\<lambda>e. telegram api (EditError (exc_str e))))
       (cleanup failure file_path)"

text \<open>
  \<open>callback_quality\<close> from line 185 to its end. \<open>download_video\<close> itself does not raise, so
  the outer \<open>except Exception\<close> can only be entered from the calls after it.
\<close>

definition callback_quality_download ::
  "(action \<Rightarrow> pyexc option) \<Rightarrow> pyexc option \<Rightarrow> (string \<times> string) option \<Rightarrow> step" where
  "callback_quality_download api failure downloaded =
     then_do
       (try_except_exception
          (case downloaded of
             Some (file_path, file_name) \<Rightarrow>
               if file_path \<noteq> [] \<and> file_name \<noteq> []
               then then_do (telegram api (EditText ''uploading''))
                            (send_video api failure file_path file_name)
               else telegram api (EditError ''Failed to download video'')
           | None \<Rightarrow> telegram api (EditError ''Failed to download video''))
          (\<lambda>e. telegram api (EditError (exc_str e))))
       (telegram api CallbackAnswer)"

text \<open>How often \<open>cleanup_file\<close> has been called on a path.\<close>

definition cleanups :: "string \<Rightarrow> world \<Rightarrow> nat" where
  "cleanups file_path w = count_list (calls w) (CleanupFile file_path)"

section \<open>Properties of the format resolver\<close>

lemma sort_RESOLUTIONS: "sort_key snd RESOLUTIONS = RESOLUTIONS"
  by (simp add: RESOLUTIONS_def)

lemma distinct_RESOLUTIONS: "distinct (map fst RESOLUTIONS)"
  by (simp add: RESOLUTIONS_def)

lemma sorted_RESOLUTIONS: "sorted (map snd RESOLUTIONS)"
  by (simp add: RESOLUTIONS_def)

lemma map_of_RESOLUTIONS:
  "(n, h) \<in> set RESOLUTIONS \<Longrightarrow> map_of RESOLUTIONS n = Some h"
  using distinct_RESOLUTIONS by (rule map_of_is_SomeI)

text \<open>
  The final sort neither fails nor moves anything: both branches hand it a sublist of the
  table's names, which are known keys already in ascending height.
\<close>

lemma sort_by_resolution_filter:
  "sort_by_resolution (map fst (filter P RESOLUTIONS)) = Inr (map fst (filter P RESOLUTIONS))"
proof -
  let ?names = "map fst (filter P RESOLUTIONS)"
  have known: "list_all (\<lambda>x. map_of RESOLUTIONS x \<noteq> None) ?names"
    by (auto simp: list_all_iff dest: map_of_RESOLUTIONS)
  have eq: "map (\<lambda>x. the (map_of RESOLUTIONS x)) ?names = map snd (filter P RESOLUTIONS)"
    by (auto dest: map_of_RESOLUTIONS)
  have "sorted (map snd (filter P RESOLUTIONS))"
    using sorted_RESOLUTIONS by (rule sorted_filter)
  then have "sorted (map (\<lambda>x. the (map_of RESOLUTIONS x)) ?names)"
    by (simp only: eq)
  then have "sort_key (\<lambda>x. the (map_of RESOLUTIONS x)) ?names = ?names"
    by (rule sort_key_id_if_sorted)
  with known show ?thesis
    by (simp add: sort_by_resolution_def)
qed

lemma matched_formats_finite:
  "finite A \<Longrightarrow>
   matched_formats A = map fst (filter (\<lambda>(n, h). \<exists>a\<in>A. close_to a h) RESOLUTIONS)"
  by (simp add: matched_formats_def sort_RESOLUTIONS list_ex_iff)

lemma available_qualities_cases:
  assumes fin: "finite A"
  shows "available_qualities A =
     Inr (map fst (filter (\<lambda>(n, h).
            if \<exists>(n', h')\<in>set RESOLUTIONS. \<exists>a\<in>A. close_to a h'
            then \<exists>a\<in>A. close_to a h
            else h \<le> (if A \<noteq> {} then Max A else 720)) RESOLUTIONS))"
proof (cases "matched_formats A = []")
  case True
  with fin have none: "\<not> (\<exists>(n', h')\<in>set RESOLUTIONS. \<exists>a\<in>A. close_to a h')"
    by (auto simp: matched_formats_finite filter_empty_conv)
  have "available_qualities A = sort_by_resolution (fallback_formats A)"
    using True by (simp add: available_qualities_def)
  also have "\<dots> = Inr (fallback_formats A)"
    unfolding fallback_formats_def Let_def by (rule sort_by_resolution_filter)
  finally show ?thesis
    using none by (simp add: fallback_formats_def Let_def)
next
  case False
  with fin have some: "\<exists>(n', h')\<in>set RESOLUTIONS. \<exists>a\<in>A. close_to a h'"
    by (auto simp: matched_formats_finite filter_empty_conv)
  have "available_qualities A = sort_by_resolution (matched_formats A)"
    using False by (simp add: available_qualities_def)
  also have "\<dots> = Inr (matched_formats A)"
    unfolding matched_formats_finite [OF fin] by (rule sort_by_resolution_filter)
  finally show ?thesis
    using some fin by (simp add: matched_formats_finite)
qed

text \<open>
  C1. With no available height at all, nothing matches, the fallback assumes a maximum
  height of 720, and the result is the names of height at most 720 in ascending order:
  144p, 240p, 360p, 480p, 720p. The same list comes out of \<open>get_available_formats\<close> when
  the metadata has no \<open>formats\<close> entry.
\<close>

theorem available_qualities_empty:
  "available_qualities {} = Inr [''144p'', ''240p'', ''360p'', ''480p'', ''720p'']
   \<and> [''144p'', ''240p'', ''360p'', ''480p'', ''720p'']
       = map fst (filter (\<lambda>(n, h). h \<le> 720) (sort_key snd RESOLUTIONS))
   \<and> get_available_formats (Inr \<lparr>info_title = t, info_formats = None\<rparr>)
       = Inr [''144p'', ''240p'', ''360p'', ''480p'', ''720p'']"
proof -
  have a: "available_qualities {} = Inr [''144p'', ''240p'', ''360p'', ''480p'', ''720p'']"
    by (simp add: available_qualities_cases) (simp add: RESOLUTIONS_def)
  have b: "[''144p'', ''240p'', ''360p'', ''480p'', ''720p'']
           = map fst (filter (\<lambda>(n, h). h \<le> 720) (sort_key snd RESOLUTIONS))"
    by (simp add: RESOLUTIONS_def)
  have c: "collect_heights [] = {}"
    by (simp add: collect_heights_def List.map_filter_simps)
  show ?thesis
    using a b by (simp add: get_available_formats_def get_available_formats_body_def c)
qed

text \<open>
  C4, as stated: a name is in the result exactly when some available height is within its
  tolerance. It fails whenever nothing matches: for the single height 608 the result holds
  480p, although 608 is 128 away from 480 and the tolerance of 480 is 50.
\<close>

theorem available_qualities_608_counterexample:
  "available_qualities {608} = Inr [''144p'', ''240p'', ''360p'', ''480p'']
   \<and> \<not> close_to 608 480"
  by (simp add: available_qualities_cases) (simp add: RESOLUTIONS_def close_to_def)

text \<open>
  C4, amended. For a finite set of heights: when at least one name of the table has an
  available height within its tolerance, the result is exactly the names that have one, in
  ascending order; when none has, the result is the names of height at most the largest
  available height (720 for the empty set), in ascending order. For the heights 360, 480
  and 720 the result is 360p, 480p, 720p.
\<close>

theorem available_qualities_tolerance:
  "finite A \<Longrightarrow>
   available_qualities A =
     Inr (map fst (filter (\<lambda>(n, h).
            if \<exists>(n', h')\<in>set RESOLUTIONS. \<exists>a\<in>A. close_to a h'
            then \<exists>a\<in>A. 10 * \<bar>a - h\<bar> \<le> max h 500
            else h \<le> (if A \<noteq> {} then Max A else 720)) RESOLUTIONS))
   \<and> available_qualities {360, 480, 720} = Inr [''360p'', ''480p'', ''720p'']"
proof -
  assume fin: "finite A"
  have "available_qualities {360, 480, 720} = Inr [''360p'', ''480p'', ''720p'']"
    by (simp add: available_qualities_cases) (simp add: RESOLUTIONS_def close_to_def)
  then show ?thesis
    using available_qualities_cases [OF fin] by (simp add: close_to_def)
qed

theorem available_qualities_tolerance_witness:
  "finite {240, 1080 :: int}
   \<and> available_qualities {240, 1080} = Inr [''240p'', ''1080p'']"
proof -
  have fin: "finite {240, 1080 :: int}" by simp
  show ?thesis
    using available_qualities_tolerance [OF fin]
    by (simp add: RESOLUTIONS_def close_to_def)
qed

text \<open>
  C6. When the metadata probe raises, \<open>get_available_formats\<close> returns the standard list
  144p .. 1080p, and for every outcome of the probe it returns a list: nothing raised
  inside the \<open>try\<close> reaches the caller.
\<close>

theorem get_available_formats_probe_failure:
  "get_available_formats (Inl e)
     = Inr [''144p'', ''240p'', ''360p'', ''480p'', ''720p'', ''1080p'']
   \<and> (\<exists>available_formats. get_available_formats probe = Inr available_formats)"
  by (simp add: get_available_formats_def get_available_formats_body_def default_formats_def
        split: sum.split)

section \<open>Properties of the download options\<close>

lemma render_video_selector: "render (video_selector h) = format_code h"
  by (simp add: video_selector_def format_code_def)

lemma quality_height_1080p: "quality_height ''1080p'' = 1080"
  by (simp add: quality_height_def RESOLUTIONS_def)

lemma str_int_1080: "str_int 1080 = ''1080''"
  by code_simp

lemma str_int_720: "str_int 720 = ''720''"
  by code_simp

lemma select_Pick_sound:
  assumes "select (Pick k cap) ss = Some sel" and "s \<in> set sel"
  shows "s \<in> set ss \<and> of_kind k s \<and> under_cap cap s"
proof -
  let ?l = "filter (\<lambda>s. of_kind k s \<and> under_cap cap s) ss"
  from assms(1) have ne: "?l \<noteq> []" and sel: "sel = [last ?l]"
    by (auto split: list.splits)
  from assms(2) sel have "s = last ?l" by simp
  with ne have "s \<in> set ?l" using last_in_set by blast
  then show ?thesis by simp
qed

lemma video_selector_capped:
  assumes "select (video_selector cap) ss = Some sel" and "s \<in> set sel" and "has_video s"
  shows "\<exists>h. stream_height s = Some h \<and> h \<le> cap"
proof -
  let ?v = "Pick bestvideo (Some cap)" and ?a = "Pick bestaudio None"
    and ?b = "Pick best (Some cap)"
  from assms(1) consider
      (merge) x y where "select ?v ss = Some x" "select ?a ss = Some y" "sel = x @ y"
    | (single) "select ?b ss = Some sel"
    unfolding video_selector_def by (auto simp del: select.simps(1) split: option.splits)
  then show ?thesis
  proof cases
    case merge
    with assms(2) have "s \<in> set x \<or> s \<in> set y" by simp
    then show ?thesis
    proof
      assume "s \<in> set x"
      with merge(1) have "under_cap (Some cap) s" using select_Pick_sound by blast
      then show ?thesis by (simp split: option.splits)
    next
      assume "s \<in> set y"
      with merge(2) have "of_kind bestaudio s" using select_Pick_sound by blast
      with assms(3) show ?thesis by simp
    qed
  next
    case single
    with assms(2) have "under_cap (Some cap) s" using select_Pick_sound by blast
    then show ?thesis by (simp split: option.splits)
  qed
qed

text \<open>
  C7. For the quality 1080p the \<open>format\<close> option is
  \<open>bestvideo[height<=1080]+bestaudio/best[height<=1080]\<close>: a video-only stream capped at
  1080 merged with the best audio stream, with a combined stream capped at 1080 as the
  alternative. Whatever streams exist, every selected stream that carries video has a
  height of at most 1080; the merged pair is the selection whenever it exists, and the
  capped combined stream is the selection otherwise.
\<close>

theorem download_video_1080p_capped:
  "map_of (video_ydl_opts download_dir file_id ''1080p'') ''format''
     = Some (OptStr ''bestvideo[height<=1080]+bestaudio/best[height<=1080]'')
   \<and> ''bestvideo[height<=1080]+bestaudio/best[height<=1080]'' = render (video_selector 1080)
   \<and> (select (video_selector 1080) ss = Some sel \<and> s \<in> set sel \<and> has_video s
        \<longrightarrow> (\<exists>h. stream_height s = Some h \<and> h \<le> 1080))
   \<and> (select (Merge (Pick bestvideo (Some 1080)) (Pick bestaudio None)) ss = Some pair
        \<longrightarrow> select (video_selector 1080) ss = Some pair)
   \<and> (select (Merge (Pick bestvideo (Some 1080)) (Pick bestaudio None)) ss = None
        \<longrightarrow> select (video_selector 1080) ss = select (Pick best (Some 1080)) ss)"
proof -
  have fc: "format_code 1080 = ''bestvideo[height<=1080]+bestaudio/best[height<=1080]''"
    by (simp add: format_code_def str_int_1080)
  have a: "map_of (video_ydl_opts download_dir file_id ''1080p'') ''format''
             = Some (OptStr ''bestvideo[height<=1080]+bestaudio/best[height<=1080]'')"
    by (simp add: video_ydl_opts_def quality_height_1080p fc)
  have b: "''bestvideo[height<=1080]+bestaudio/best[height<=1080]''
             = render (video_selector 1080)"
    by (simp only: render_video_selector fc)
  have c: "select (video_selector 1080) ss = Some sel \<and> s \<in> set sel \<and> has_video s
             \<longrightarrow> (\<exists>h. stream_height s = Some h \<and> h \<le> 1080)"
    using video_selector_capped by blast
  have d: "select (Merge (Pick bestvideo (Some 1080)) (Pick bestaudio None)) ss = Some pair
             \<longrightarrow> select (video_selector 1080) ss = Some pair"
    by (simp add: video_selector_def del: select.simps(1,2))
  have e: "select (Merge (Pick bestvideo (Some 1080)) (Pick bestaudio None)) ss = None
             \<longrightarrow> select (video_selector 1080) ss = select (Pick best (Some 1080)) ss"
    by (simp add: video_selector_def del: select.simps(1,2))
  from a b c d e show ?thesis by blast
qed

theorem download_video_1080p_capped_witness:
  "select (video_selector 1080)
     [\<lparr>has_video = True, has_audio = True, stream_height = Some 360\<rparr>,
      \<lparr>has_video = True, has_audio = False, stream_height = Some 1080\<rparr>,
      \<lparr>has_video = True, has_audio = False, stream_height = Some 2160\<rparr>,
      \<lparr>has_video = False, has_audio = True, stream_height = None\<rparr>]
   = Some [\<lparr>has_video = True, has_audio = False, stream_height = Some 1080\<rparr>,
           \<lparr>has_video = False, has_audio = True, stream_height = None\<rparr>]
   \<and> has_video \<lparr>has_video = True, has_audio = False, stream_height = Some 1080\<rparr>
   \<and> (\<exists>h. stream_height \<lparr>has_video = True, has_audio = False, stream_height = Some 1080\<rparr>
             = Some h \<and> h \<le> 1080)"
  using download_video_1080p_capped
    [of "''downloads''" "''id''"
        "[\<lparr>has_video = True, has_audio = True, stream_height = Some 360\<rparr>,
          \<lparr>has_video = True, has_audio = False, stream_height = Some 1080\<rparr>,
          \<lparr>has_video = True, has_audio = False, stream_height = Some 2160\<rparr>,
          \<lparr>has_video = False, has_audio = True, stream_height = None\<rparr>]"
        "[\<lparr>has_video = True, has_audio = False, stream_height = Some 1080\<rparr>,
          \<lparr>has_video = False, has_audio = True, stream_height = None\<rparr>]"
        "\<lparr>has_video = True, has_audio = False, stream_height = Some 1080\<rparr>"]
  by (simp add: video_selector_def)

text \<open>
  C10. A quality string that is none of the eight names of the table gets the height 720:
  the options built for it are those built for 720p, with the well-formed selection string
  \<open>bestvideo[height<=720]+bestaudio/best[height<=720]\<close>. Nothing is rejected.
\<close>

theorem download_video_unknown_quality:
  assumes "quality \<notin> set [''144p'', ''240p'', ''360p'', ''480p'', ''720p'', ''1080p'',
                          ''1440p'', ''2160p'']"
  shows "quality_height quality = 720
    \<and> video_ydl_opts download_dir file_id quality
        = video_ydl_opts download_dir file_id ''720p''
    \<and> map_of (video_ydl_opts download_dir file_id quality) ''format''
        = Some (OptStr ''bestvideo[height<=720]+bestaudio/best[height<=720]'')"
proof -
  from assms have "quality \<notin> fst ` set RESOLUTIONS"
    by (simp add: RESOLUTIONS_def)
  then have "map_of RESOLUTIONS quality = None"
    by (simp add: map_of_eq_None_iff)
  then have h: "quality_height quality = 720"
    by (simp add: quality_height_def)
  have h720: "quality_height ''720p'' = 720"
    by (simp add: quality_height_def RESOLUTIONS_def)
  have fc: "format_code 720 = ''bestvideo[height<=720]+bestaudio/best[height<=720]''"
    by (simp add: format_code_def str_int_720)
  show ?thesis
    by (simp add: video_ydl_opts_def h h720 fc)
qed

theorem download_video_unknown_quality_witness:
  "''4k'' \<notin> set [''144p'', ''240p'', ''360p'', ''480p'', ''720p'', ''1080p'',
                   ''1440p'', ''2160p'']
   \<and> quality_height ''4k'' = 720
   \<and> map_of (video_ydl_opts ''downloads'' ''id'' ''4k'') ''format''
        = Some (OptStr ''bestvideo[height<=720]+bestaudio/best[height<=720]'')"
proof -
  have h: "''4k'' \<notin> set [''144p'', ''240p'', ''360p'', ''480p'', ''720p'', ''1080p'',
                          ''1440p'', ''2160p'']"
    by simp
  show ?thesis
    using h download_video_unknown_quality [OF h, of "''downloads''" "''id''"] by blast
qed

section \<open>Properties of the link validator\<close>

lemma sublist_trans': "sublist xs ys \<Longrightarrow> sublist ys zs \<Longrightarrow> sublist xs zs"
  by (rule sublist_order.order_trans)

lemma sublist_dropWhile_keeps:
  assumes "sublist h s" and "h \<noteq> []" and "\<not> P (hd h)"
  shows "sublist h (dropWhile P s)"
proof -
  from assms(1) obtain ps ss where s: "s = ps @ h @ ss"
    by (auto simp: sublist_def)
  from assms(2,3) have stop: "dropWhile P (h @ ss) = h @ ss"
    by (cases h) auto
  have "sublist h (dropWhile P (ps @ h @ ss))"
  proof (induction ps)
    case Nil
    show ?case by (simp only: append_Nil stop) simp
  next
    case (Cons p ps)
    show ?case
    proof (cases "P p")
      case True
      with Cons show ?thesis by simp
    next
      case False
      then have "dropWhile P ((p # ps) @ h @ ss) = (p # ps) @ h @ ss" by simp
      then show ?thesis by (simp only: sublist_appendI)
    qed
  qed
  with s show ?thesis by simp
qed

lemma sublist_strip_keeps:
  assumes "sublist h s" and "h \<noteq> []" and "\<not> isspace (hd h)" and "\<not> isspace (last h)"
  shows "sublist h (strip s)"
proof -
  from assms(1-3) have "sublist h (dropWhile isspace s)"
    by (rule sublist_dropWhile_keeps)
  then have "sublist (rev h) (rev (dropWhile isspace s))"
    by simp
  moreover from assms(2,4) have "rev h \<noteq> []" "\<not> isspace (hd (rev h))"
    by (simp_all add: hd_rev)
  ultimately have "sublist (rev h) (dropWhile isspace (rev (dropWhile isspace s)))"
    by (rule sublist_dropWhile_keeps)
  then have "sublist (rev (rev h)) (rev (dropWhile isspace (rev (dropWhile isspace s))))"
    by (simp only: sublist_rev)
  then show ?thesis
    by (simp add: strip_def)
qed

lemma sublist_clean_url_keeps:
  assumes "sublist h url" and "h \<noteq> []"
    and "\<not> isspace (hd h)" and "\<not> isspace (last h)" and "hd h \<noteq> CHR ''@''"
  shows "sublist h (clean_url url)"
proof -
  from assms(1-4) have "sublist h (strip url)"
    by (rule sublist_strip_keeps)
  moreover from assms(3,5) have "\<not> (hd h = CHR ''@'' \<or> isspace (hd h))"
    by simp
  ultimately show ?thesis
    unfolding clean_url_def using assms(2) by (intro sublist_dropWhile_keeps)
qed

lemma sublist_strip: "sublist (strip s) s"
proof -
  have "sublist (rev (dropWhile isspace (rev (dropWhile isspace s)))) (rev (rev (dropWhile isspace s)))"
    by (simp only: sublist_rev sublist_dropWhile)
  then have "sublist (strip s) (dropWhile isspace s)"
    by (simp add: strip_def)
  then show ?thesis
    using sublist_dropWhile by (rule sublist_trans')
qed

lemma sublist_clean_url: "sublist (clean_url url) url"
proof -
  have "sublist (clean_url url) (strip url)"
    unfolding clean_url_def by (rule sublist_dropWhile)
  moreover have "sublist (strip url) url"
    by (rule sublist_strip)
  ultimately show ?thesis
    by (rule sublist_trans')
qed

lemma plus_class_append:
  "t \<in> set (plus_class p s) \<Longrightarrow> t @ x \<in> set (plus_class p (s @ x))"
  by (induction s) (auto split: if_splits)

lemma rmatch_append:
  "t \<in> set (rmatch r s) \<Longrightarrow> t @ x \<in> set (rmatch r (s @ x))"
proof (induction r arbitrary: s t)
  case (Lit l)
  show ?case
  proof (cases "prefix l s")
    case True
    then obtain z where z: "s = l @ z" by (auto simp: prefix_def)
    with Lit have "t = z" by simp
    with z show ?thesis by simp
  next
    case False
    with Lit show ?thesis by simp
  qed
next
  case (Class p)
  show ?case
  proof (cases s)
    case Nil
    with Class show ?thesis by simp
  next
    case (Cons c cs)
    with Class show ?thesis by (cases "p c") simp_all
  qed
next
  case (PlusClass p)
  then show ?case by (simp add: plus_class_append)
next
  case (Seq a b)
  from Seq.prems obtain u where u: "u \<in> set (rmatch a s)" and t: "t \<in> set (rmatch b u)"
    by auto
  from u have "u @ x \<in> set (rmatch a (s @ x))" by (rule Seq.IH(1))
  moreover from t have "t @ x \<in> set (rmatch b (u @ x))" by (rule Seq.IH(2))
  ultimately show ?case by auto
next
  case (Alt a b)
  then show ?case by auto
next
  case (Opt a)
  then show ?case by auto
qed

lemma re_search_iff:
  "re_search r s \<longleftrightarrow> (\<exists>t. suffix t s \<and> rmatch r t \<noteq> [])"
  by (auto simp: re_search_def list_ex_iff)

lemma re_search_sublist:
  assumes "sublist s' s" and "re_search r s'"
  shows "re_search r s"
proof -
  from assms(1) obtain ps ss where s: "s = ps @ s' @ ss"
    by (auto simp: sublist_def)
  from assms(2) obtain t where t: "suffix t s'" and m: "rmatch r t \<noteq> []"
    by (auto simp: re_search_iff)
  from m obtain u where "u \<in> set (rmatch r t)"
    by (cases "rmatch r t") auto
  then have "u @ ss \<in> set (rmatch r (t @ ss))"
    by (rule rmatch_append)
  then have "rmatch r (t @ ss) \<noteq> []" by auto
  moreover from t s have "suffix (t @ ss) s"
    by (auto simp: suffix_def)
  ultimately show ?thesis
    by (auto simp: re_search_iff)
qed

lemma hosts_plain:
  "''youtube.com'' \<noteq> []" "\<not> isspace (hd ''youtube.com'')" "\<not> isspace (last ''youtube.com'')"
  "hd ''youtube.com'' \<noteq> CHR ''@''"
  "''youtu.be'' \<noteq> []" "\<not> isspace (hd ''youtu.be'')" "\<not> isspace (last ''youtu.be'')"
  "hd ''youtu.be'' \<noteq> CHR ''@''"
  by (simp_all add: isspace_def)

text \<open>
  C5. \<open>is_valid_youtube_url\<close> is a total function into the booleans. It is true of every
  string that contains \<open>youtube.com\<close> or \<open>youtu.be\<close>. It is false of every string that
  contains neither and that the pattern does not match, whether the pattern is tried on the
  string as given or on the cleaned string that the code searches.
\<close>

theorem is_valid_youtube_url_hosts:
  "(sublist ''youtube.com'' url \<or> sublist ''youtu.be'' url \<longrightarrow> is_valid_youtube_url url)
   \<and> (\<not> sublist ''youtube.com'' url \<and> \<not> sublist ''youtu.be'' url
        \<and> \<not> re_search YOUTUBE_URL_PATTERN url \<longrightarrow> \<not> is_valid_youtube_url url)
   \<and> (\<not> sublist ''youtube.com'' url \<and> \<not> sublist ''youtu.be'' url
        \<and> \<not> re_search YOUTUBE_URL_PATTERN (clean_url url) \<longrightarrow> \<not> is_valid_youtube_url url)"
proof (intro conjI impI)
  assume h: "sublist ''youtube.com'' url \<or> sublist ''youtu.be'' url"
  then have ne: "url \<noteq> []" by auto
  from h have "sublist ''youtube.com'' (clean_url url) \<or> sublist ''youtu.be'' (clean_url url)"
    using hosts_plain by (blast intro: sublist_clean_url_keeps)
  with ne show "is_valid_youtube_url url"
    by (simp add: is_valid_youtube_url_def Let_def)
next
  assume a: "\<not> sublist ''youtube.com'' url \<and> \<not> sublist ''youtu.be'' url
             \<and> \<not> re_search YOUTUBE_URL_PATTERN url"
  have c: "sublist (clean_url url) url" by (rule sublist_clean_url)
  from a c have "\<not> sublist ''youtube.com'' (clean_url url)" "\<not> sublist ''youtu.be'' (clean_url url)"
    by (blast intro: sublist_trans')+
  moreover from a c have "\<not> re_search YOUTUBE_URL_PATTERN (clean_url url)"
    by (blast intro: re_search_sublist)
  ultimately show "\<not> is_valid_youtube_url url"
    by (simp add: is_valid_youtube_url_def Let_def)
next
  assume a: "\<not> sublist ''youtube.com'' url \<and> \<not> sublist ''youtu.be'' url
             \<and> \<not> re_search YOUTUBE_URL_PATTERN (clean_url url)"
  have c: "sublist (clean_url url) url" by (rule sublist_clean_url)
  from a c have "\<not> sublist ''youtube.com'' (clean_url url)" "\<not> sublist ''youtu.be'' (clean_url url)"
    by (blast intro: sublist_trans')+
  with a show "\<not> is_valid_youtube_url url"
    by (simp add: is_valid_youtube_url_def Let_def)
qed

lemma youtu_be_witness_input:
  "sublist ''youtu.be'' '' @https://youtu.be/dQw4w9WgXcQ''"
  by code_simp

lemma no_host_witness_input:
  "\<not> sublist ''youtube.com'' ''hello world'' \<and> \<not> sublist ''youtu.be'' ''hello world''
   \<and> \<not> re_search YOUTUBE_URL_PATTERN ''hello world''"
  by code_simp

theorem is_valid_youtube_url_hosts_witness:
  "sublist ''youtu.be'' '' @https://youtu.be/dQw4w9WgXcQ''
   \<and> is_valid_youtube_url '' @https://youtu.be/dQw4w9WgXcQ''
   \<and> \<not> sublist ''youtube.com'' ''hello world'' \<and> \<not> sublist ''youtu.be'' ''hello world''
   \<and> \<not> re_search YOUTUBE_URL_PATTERN ''hello world''
   \<and> \<not> is_valid_youtube_url ''hello world''"
  using youtu_be_witness_input no_host_witness_input
    is_valid_youtube_url_hosts [of "'' @https://youtu.be/dQw4w9WgXcQ''"]
    is_valid_youtube_url_hosts [of "''hello world''"]
  by blast

section \<open>Properties of the file lifecycle\<close>

text \<open>
  C8. \<open>cleanup_file\<close> never raises, whether or not the file exists and whether or not the
  removal fails, and so two calls in a row both return normally. No path other than the
  given one is added or removed. On an absent path a call changes nothing and logs nothing,
  and a call on an existing path whose removal succeeds removes exactly that path; so the
  second call after a successful first one is without effect.
\<close>

theorem cleanup_file_idempotent:
  "\<exists>files1 log1 files2 log2.
      cleanup_file failure1 files file_path = Inr (files1, log1)
    \<and> cleanup_file failure2 files1 file_path = Inr (files2, log2)
    \<and> (\<forall>other. other \<noteq> file_path \<longrightarrow> (other \<in> files2 \<longleftrightarrow> other \<in> files))
    \<and> (file_path \<notin> files \<longrightarrow> files1 = files \<and> log1 = [])
    \<and> (file_path \<notin> files1 \<longrightarrow> files2 = files1 \<and> log2 = [])
    \<and> (file_path \<in> files \<and> failure1 = None \<longrightarrow> files1 = files - {file_path})"
  by (cases failure1; cases failure2)
     (auto simp: cleanup_file_def cleanup_file_body_def os_remove_def)

theorem cleanup_file_idempotent_witness:
  "cleanup_file None {''a.mp3'', ''b.mp4''} ''a.mp3''
     = Inr ({''b.mp4''}, [LogInfo ''Deleted file: a.mp3''])
   \<and> cleanup_file (Some (OtherError ''PermissionError'')) {''b.mp4''} ''a.mp3''
     = Inr ({''b.mp4''}, [])"
proof -
  have first: "cleanup_file None {''a.mp3'', ''b.mp4''} ''a.mp3''
                 = Inr ({''b.mp4''}, [LogInfo ''Deleted file: a.mp3''])"
    by (auto simp: cleanup_file_def cleanup_file_body_def os_remove_def)
  from cleanup_file_idempotent
         [of None "{''a.mp3'', ''b.mp4''}" "''a.mp3''" "Some (OtherError ''PermissionError'')"]
  obtain files2 log2
    where second: "cleanup_file (Some (OtherError ''PermissionError'')) {''b.mp4''} ''a.mp3''
                     = Inr (files2, log2)"
      and same: "''a.mp3'' \<notin> {''b.mp4''} \<longrightarrow> files2 = {''b.mp4''} \<and> log2 = []"
    unfolding first by auto
  from same have "files2 = {''b.mp4''}" "log2 = []"
    by simp_all
  with first second show ?thesis
    by simp
qed

section \<open>Properties of the request-rate gate\<close>

lemma throttling_accepted_stores:
  assumes "get_user ev = Some user_id"
    and "throttling_call mw handler ev flag now = (mw', Called r)"
    and "0 < throttling_rate mw flag"
  shows "mw' = mw\<lparr>user_last_request := (user_last_request mw)(user_id \<mapsto> now)\<rparr>"
  using assms by (auto simp: throttling_call_def Let_def split: if_splits)

lemma throttling_too_soon:
  assumes "get_user ev = Some user_id"
    and "user_last_request mw user_id = Some t_last"
    and "0 < throttling_rate mw flag"
    and "now - t_last < throttling_rate mw flag"
  shows "throttling_call mw handler ev flag now = (mw, Ignored)"
  using assms by (simp add: throttling_call_def Let_def)

lemma throttling_rate_update [simp]:
  "throttling_rate (mw\<lparr>user_last_request := m\<rparr>) flag = throttling_rate mw flag"
  by (simp add: throttling_rate_def split: option.splits)

text \<open>
  C9. Two requests of the same user: the first passes the gate at time \<open>t1\<close> and is handed to
  its handler, which stores \<open>t1\<close> as the user's last request; the second comes at \<open>t2\<close>, less
  than its minimum interval after \<open>t1\<close>. Then the second request is dropped: its handler is
  not called and the stored time stays \<open>t1\<close>. And whenever a call changes the stored times,
  that call did invoke its handler: a dropped request updates nothing.
\<close>

theorem throttling_debounce:
  assumes "get_user ev1 = Some user_id" and "get_user ev2 = Some user_id"
    and "throttling_call mw handler1 ev1 flag1 t1 = (mw1, Called r)"
    and "0 < throttling_rate mw flag1"
    and "0 < throttling_rate mw flag2"
    and "t2 - t1 < throttling_rate mw flag2"
  shows "user_last_request mw1 user_id = Some t1
    \<and> throttling_call mw1 handler2 ev2 flag2 t2 = (mw1, Ignored)
    \<and> (fst (throttling_call mw0 handler ev flag now) \<noteq> mw0
         \<longrightarrow> snd (throttling_call mw0 handler ev flag now) = Called (handler ev))"
proof -
  from assms(1,3,4)
  have mw1: "mw1 = mw\<lparr>user_last_request := (user_last_request mw)(user_id \<mapsto> t1)\<rparr>"
    by (rule throttling_accepted_stores)
  then have stored: "user_last_request mw1 user_id = Some t1"
    by simp
  from mw1 have rate: "throttling_rate mw1 flag2 = throttling_rate mw flag2"
    by simp
  from assms(2) stored assms(5,6)
  have dropped: "throttling_call mw1 handler2 ev2 flag2 t2 = (mw1, Ignored)"
    by (intro throttling_too_soon) (simp_all add: rate)
  have only: "fst (throttling_call mw0 handler ev flag now) \<noteq> mw0
         \<longrightarrow> snd (throttling_call mw0 handler ev flag now) = Called (handler ev)"
    by (auto simp: throttling_call_def Let_def split: option.splits if_splits)
  from stored dropped only show ?thesis by blast
qed

theorem throttling_debounce_witness:
  "throttling_call \<lparr>default_rate = 1 / 2, user_last_request = Map.empty\<rparr>
      (\<lambda>e. ''select_format'') (Message (Some 7)) None 1000
     = (\<lparr>default_rate = 1 / 2, user_last_request = [7 \<mapsto> 1000]\<rparr>, Called ''select_format'')
   \<and> throttling_call \<lparr>default_rate = 1 / 2, user_last_request = [7 \<mapsto> 1000]\<rparr>
      (\<lambda>e. ''select_format'') (Message (Some 7)) None (10003 / 10)
     = (\<lparr>default_rate = 1 / 2, user_last_request = [7 \<mapsto> 1000]\<rparr>, Ignored)"
proof -
  let ?mw = "\<lparr>default_rate = 1 / 2, user_last_request = Map.empty\<rparr>"
  let ?mw1 = "\<lparr>default_rate = 1 / 2, user_last_request = [7 \<mapsto> (1000::real)]\<rparr>"
  have first: "throttling_call ?mw (\<lambda>e. ''select_format'') (Message (Some 7)) None 1000
                 = (?mw1, Called ''select_format'')"
    by (simp add: throttling_call_def throttling_rate_def)
  have rate: "0 < throttling_rate ?mw None"
    by (simp add: throttling_rate_def)
  have soon: "10003 / 10 - 1000 < throttling_rate ?mw None"
    by (simp add: throttling_rate_def)
  have u: "get_user (Message (Some 7)) = Some 7"
    by simp
  from throttling_debounce [OF u u first rate rate soon] first
  show ?thesis by blast
qed

section \<open>Properties of fetching and delivery\<close>

lemmas step_defs = then_do_def try_except_telegram_def try_except_exception_def
  try_finally_def telegram_def cleanup_def

lemma cleanup_file_Inr:
  "\<exists>fs lg. cleanup_file failure fs0 p = Inr (fs, lg)"
  by (cases failure)
     (auto simp: cleanup_file_def cleanup_file_body_def os_remove_def)

lemma cleanups_cleanup:
  "fst (cleanup failure p w) = Inr () \<and> cleanups p (snd (cleanup failure p w)) = Suc (cleanups p w)"
proof -
  obtain fs lg where "cleanup_file failure (paths w) p = Inr (fs, lg)"
    using cleanup_file_Inr by blast
  then show ?thesis
    by (simp add: cleanup_def cleanups_def)
qed

lemma cleanups_telegram:
  "a \<noteq> CleanupFile p \<Longrightarrow> cleanups p (snd (telegram api a w)) = cleanups p w"
  by (simp add: cleanups_def telegram_def)

lemma try_finally_cleanup:
  assumes "cleanups p (snd (body w)) = cleanups p w"
  shows "cleanups p (snd (try_finally body (cleanup failure p) w)) = Suc (cleanups p w)"
proof -
  obtain r w' where b: "body w = (r, w')" by (cases "body w")
  with assms have c: "cleanups p w' = cleanups p w" by simp
  obtain w'' where f: "cleanup failure p w' = (Inr (), w'')"
    using cleanups_cleanup [of failure p w'] by (cases "cleanup failure p w'") auto
  with cleanups_cleanup [of failure p w'] have "cleanups p w'' = Suc (cleanups p w')"
    by simp
  with b f c show ?thesis
    by (simp add: try_finally_def)
qed

lemma send_audio_body_no_cleanup:
  "cleanups p
     (snd (try_except_telegram
             (then_do (telegram api (AnswerAudio p n))
                      (telegram api (EditText ''download_complete'')))
             (\<lambda>e. telegram api (EditError (exc_str e))) w)) = cleanups p w"
  by (auto simp: try_except_telegram_def then_do_def telegram_def cleanups_def
           split: option.splits pyexc.splits)

lemma send_video_body_no_cleanup:
  "cleanups p
     (snd (try_except_telegram
             (then_do (telegram api (AnswerVideo p n))
                      (telegram api (EditText ''download_complete'')))
             (\<lambda>e. telegram api (EditError (exc_str e))) w)) = cleanups p w"
  by (auto simp: try_except_telegram_def then_do_def telegram_def cleanups_def
           split: option.splits pyexc.splits)

lemma send_audio_cleans_once:
  "cleanups p (snd (send_audio api failure p n w)) = Suc (cleanups p w)"
  unfolding send_audio_def by (rule try_finally_cleanup) (rule send_audio_body_no_cleanup)

lemma send_video_cleans_once:
  "cleanups p (snd (send_video api failure p n w)) = Suc (cleanups p w)"
  unfolding send_video_def by (rule try_finally_cleanup) (rule send_video_body_no_cleanup)

lemma then_do_cleanups:
  assumes "\<And>w'. cleanups p (snd (second w')) = cleanups p w'"
    and "cleanups p (snd (first w)) = k"
  shows "cleanups p (snd (then_do first second w)) = k"
  using assms by (auto simp: then_do_def split: prod.splits sum.splits)

lemma delivery_cleans_once:
  assumes "file_path \<noteq> []" and "file_name \<noteq> []" and "api (EditText ''uploading'') = None"
  shows "cleanups file_path
           (snd (callback_format_audio api failure (Some (file_path, file_name)) w))
         = Suc (cleanups file_path w)
     \<and> cleanups file_path
           (snd (callback_quality_download api failure (Some (file_path, file_name)) w))
         = Suc (cleanups file_path w)"
proof -
  let ?w1 = "w\<lparr>calls := calls w @ [EditText ''uploading'']\<rparr>"
  have up: "telegram api (EditText ''uploading'') w = (Inr (), ?w1)"
    using assms(3) by (simp add: telegram_def)
  have c1: "cleanups file_path ?w1 = cleanups file_path w"
    by (simp add: cleanups_def)
  have a: "cleanups file_path
             (snd (then_do (telegram api (EditText ''uploading''))
                           (send_audio api failure file_path file_name) w))
           = Suc (cleanups file_path w)"
    using send_audio_cleans_once [of file_path api failure file_name ?w1] c1
    by (simp add: then_do_def up)
  have v: "cleanups file_path
             (snd (then_do (telegram api (EditText ''uploading''))
                           (send_video api failure file_path file_name) w))
           = Suc (cleanups file_path w)"
    using send_video_cleans_once [of file_path api failure file_name ?w1] c1
    by (simp add: then_do_def up)
  have answer: "\<And>w'. cleanups file_path (snd (telegram api CallbackAnswer w')) = cleanups file_path w'"
    by (simp add: cleanups_telegram)
  have "cleanups file_path
          (snd (callback_format_audio api failure (Some (file_path, file_name)) w))
        = Suc (cleanups file_path w)"
    unfolding callback_format_audio_def using assms(1,2) a
    by (intro then_do_cleanups answer) simp
  moreover have "cleanups file_path
          (snd (callback_quality_download api failure (Some (file_path, file_name)) w))
        = Suc (cleanups file_path w)"
  proof -
    have "cleanups file_path
            (snd (try_except_exception
                    (then_do (telegram api (EditText ''uploading''))
                             (send_video api failure file_path file_name))
                    (\<lambda>e. telegram api (EditError (exc_str e))) w))
          = Suc (cleanups file_path w)"
      using v
      by (auto simp: try_except_exception_def cleanups_telegram split: prod.splits sum.splits)
    then show ?thesis
      unfolding callback_quality_download_def using assms(1,2)
      by (intro then_do_cleanups answer) simp
  qed
  ultimately show ?thesis by blast
qed

text \<open>
  C3. The download has succeeded and the file exists; the transport rejects the edit of the
  status message to "uploading", which comes before the \<open>try\<close> statement whose \<open>finally\<close>
  calls \<open>cleanup_file\<close>. Then \<open>cleanup_file\<close> is never called and the file stays: the audio
  handler ends with the exception, the video handler reports it and ends normally. (By
  \<open>delivery_cleans_once\<close>, once that edit has gone through, \<open>cleanup_file\<close> is called exactly
  once whatever the transfer and the later calls do.)
\<close>

theorem upload_notice_failure_skips_cleanup:
  "callback_format_audio
      (\<lambda>a. if a = EditText ''uploading''
            then Some (TelegramAPIError ''message to edit not found'') else None)
      None (Some (''downloads/song.mp3'', ''song.mp3''))
      \<lparr>calls = [], paths = {''downloads/song.mp3''}\<rparr>
    = (Inl (TelegramAPIError ''message to edit not found''),
       \<lparr>calls = [EditText ''uploading''], paths = {''downloads/song.mp3''}\<rparr>)
   \<and> callback_quality_download
      (\<lambda>a. if a = EditText ''uploading''
            then Some (TelegramAPIError ''message to edit not found'') else None)
      None (Some (''downloads/clip_720p.mp4'', ''clip_720p.mp4''))
      \<lparr>calls = [], paths = {''downloads/clip_720p.mp4''}\<rparr>
    = (Inr (),
       \<lparr>calls = [EditText ''uploading'', EditError ''message to edit not found'',
                 CallbackAnswer],
         paths = {''downloads/clip_720p.mp4''}\<rparr>)
   \<and> cleanups ''downloads/song.mp3''
        \<lparr>calls = [EditText ''uploading''], paths = {''downloads/song.mp3''}\<rparr> = 0
   \<and> cleanups ''downloads/clip_720p.mp4''
        \<lparr>calls = [EditText ''uploading'', EditError ''message to edit not found'',
                  CallbackAnswer],
          paths = {''downloads/clip_720p.mp4''}\<rparr> = 0"
  by (simp add: callback_format_audio_def callback_quality_download_def step_defs exc_str_def
        cleanups_def)




end
